theory Spec2Isabelle
  imports Main "HOL-Library.AList"
begin

section \<open>Values, types and errors\<close>

text \<open>
  The model covers \<^verbatim>\<open>mongorm/documents.py\<close> and \<^verbatim>\<open>pymongorm/fields.py\<close>.
  Python objects that are mutated through several handles live in explicit stores and are
  named by their address: document instances, list objects and field objects. Immutable
  values are plain constructors.
\<close>

type_synonym addr = nat

type_synonym cid = nat

datatype pyval =
    VNone
  | VInt int
  | VStr string
  | VOid nat
  | VDBRef pyval pyval
  | VList addr
  | VDoc addr

text \<open>The types that occur as arguments of \<^verbatim>\<open>isinstance\<close>.\<close>

datatype pytype = TInt | TBasestring | TList | TDict | TObjectId | TDBRef | TClass cid

text \<open>
  What evaluating \<^verbatim>\<open>self.name\<close> on a document gives: a stored value, the field object
  itself (a \<^verbatim>\<open>SelfishField\<close> returns itself from \<^verbatim>\<open>__get__\<close>), or a class
  attribute that is not a field.
\<close>

datatype attrval = Val pyval | Proxy nat | ClassAttr

datatype vmsg =
    MustBeOfTypes "string option" "pytype list"
  | MustBeList
  | MissingFields attrval "string list"

text \<open>
  Every exception of the source is a value. \<open>Unmodelled\<close> marks the few paths that leave
  the fragment of Python the model covers; they are listed where they occur.
\<close>

datatype error =
    ValidationError vmsg
  | AttributeError
  | KeyError
  | TypeError
  | IndexError
  | Unmodelled

type_synonym pydict = "(string \<times> pyval) list"

section \<open>Field declarations (fields.py)\<close>

text \<open>
  A default is absent (\<^verbatim>\<open>None\<close>), a value, or a callable. The callables are the builtin
  \<^verbatim>\<open>list\<close> (which \<^verbatim>\<open>ListField\<close> installs), the builtin \<^verbatim>\<open>dict\<close>, and a
  user callable that returns a given value.
\<close>

datatype producer = PList | PDict | PConst pyval

datatype dflt = DNone | DValue pyval | DCall producer

datatype fclass =
    BaseFieldC
  | FieldC
  | RefFieldC
  | ObjectIdFieldC
  | SelfishFieldC
  | ListFieldC
  | ListRefFieldC
  | DictFieldC
  | ListDictFieldC

text \<open>
  The method resolution order of each field class, read off the class statements
  (\<^verbatim>\<open>Field = type("Field", (BaseField,), {})\<close>); \<^verbatim>\<open>object\<close> is left out.
\<close>

fun fmro :: "fclass \<Rightarrow> fclass list" where
  "fmro BaseFieldC = [BaseFieldC]"
| "fmro FieldC = [FieldC, BaseFieldC]"
| "fmro RefFieldC = [RefFieldC, BaseFieldC]"
| "fmro ObjectIdFieldC = [ObjectIdFieldC, BaseFieldC]"
| "fmro SelfishFieldC = [SelfishFieldC, BaseFieldC]"
| "fmro ListFieldC = [ListFieldC, SelfishFieldC, BaseFieldC]"
| "fmro ListRefFieldC = [ListRefFieldC, ListFieldC, SelfishFieldC, BaseFieldC]"
| "fmro DictFieldC = [DictFieldC, BaseFieldC]"
| "fmro ListDictFieldC = [ListDictFieldC, SelfishFieldC, BaseFieldC]"

text \<open>Every class but \<^verbatim>\<open>Field\<close> has an \<^verbatim>\<open>__init__\<close> of its own.\<close>

fun defines_init :: "fclass \<Rightarrow> bool" where
  "defines_init FieldC = False"
| "defines_init _ = True"

text \<open>
  \<^verbatim>\<open>super(T, self).__init__\<close>: Python raises \<^verbatim>\<open>TypeError\<close> unless \<^verbatim>\<open>self\<close> is an
  instance of \<^verbatim>\<open>T\<close>; otherwise the lookup starts behind \<^verbatim>\<open>T\<close> in the resolution order
  of the class of \<^verbatim>\<open>self\<close>. \<open>None\<close> stands for \<^verbatim>\<open>object.__init__\<close>.
\<close>

definition super_init_target :: "fclass \<Rightarrow> fclass \<Rightarrow> error + fclass option" where
  "super_init_target T selfc =
     (if T \<in> set (fmro selfc)
      then Inr (find defines_init (tl (dropWhile (\<lambda>c. c \<noteq> T) (fmro selfc))))
      else Inl TypeError)"

record fkwargs =
  kw_name :: "string option"
  kw_default :: dflt
  kw_required :: bool

text \<open>
  A field object. \<open>fid\<close> is its identity; the \<^verbatim>\<open>_value\<close> slot of a \<^verbatim>\<open>SelfishField\<close>
  is mutable and kept in the program state under that identity.
\<close>

record field =
  fcls :: fclass
  fname :: "string option"
  ftypes :: "pytype list"
  fdefault :: dflt
  frequired :: bool
  fdoc_types :: "(string \<times> pytype) list"
  fid :: nat

fun type_name :: "(cid \<Rightarrow> string) \<Rightarrow> pytype \<Rightarrow> string" where
  "type_name nm TInt = ''int''"
| "type_name nm TBasestring = ''basestring''"
| "type_name nm TList = ''list''"
| "type_name nm TDict = ''dict''"
| "type_name nm TObjectId = ''ObjectId''"
| "type_name nm TDBRef = ''DBRef''"
| "type_name nm (TClass c) = nm c"

text \<open>\<^verbatim>\<open>dict((typ.__name__, typ) for typ in types)\<close>\<close>

definition doc_types_of :: "(cid \<Rightarrow> string) \<Rightarrow> pytype list \<Rightarrow> (string \<times> pytype) list" where
  "doc_types_of nm types = foldl (\<lambda>d t. AList.update (type_name nm t) t d) [] types"

fun frank :: "fclass \<Rightarrow> nat" where
  "frank BaseFieldC = 0"
| "frank FieldC = 1"
| "frank RefFieldC = 1"
| "frank ObjectIdFieldC = 1"
| "frank SelfishFieldC = 1"
| "frank ListFieldC = 2"
| "frank ListRefFieldC = 3"
| "frank DictFieldC = 3"
| "frank ListDictFieldC = 3"

lemma super_init_target_rank:
  "super_init_target T selfc = Inr (Some N) \<Longrightarrow> frank N < frank T"
  by (cases selfc; cases T) (auto simp: super_init_target_def)

text \<open>
  \<open>field_init nm T selfc types kw self\<close> runs the body of \<^verbatim>\<open>T.__init__(self, *types, **kw)\<close>
  on an object of class \<open>selfc\<close>. The class named in each \<^verbatim>\<open>super(...)\<close> call is the one
  written in the source.
\<close>

function field_init ::
  "(cid \<Rightarrow> string) \<Rightarrow> fclass \<Rightarrow> fclass \<Rightarrow> pytype list \<Rightarrow> fkwargs \<Rightarrow> field \<Rightarrow> error + field"
where
  "field_init nm BaseFieldC selfc types kw self =
     Inr (self\<lparr>fname := kw_name kw, ftypes := types,
               fdefault := kw_default kw, frequired := kw_required kw\<rparr>)"
| "field_init nm FieldC selfc types kw self =
     field_init nm BaseFieldC selfc types kw self"
| "field_init nm RefFieldC selfc types kw self =
     (let self1 = self\<lparr>fdoc_types := doc_types_of nm types\<rparr> in
      case super_init_target RefFieldC selfc of
        Inl e \<Rightarrow> Inl e
      | Inr None \<Rightarrow> Inr self1
      | Inr (Some N) \<Rightarrow> field_init nm N selfc [TDBRef] kw self1)"
| "field_init nm ObjectIdFieldC selfc types kw self =
     (case super_init_target ObjectIdFieldC selfc of
        Inl e \<Rightarrow> Inl e
      | Inr None \<Rightarrow> Inr self
      | Inr (Some N) \<Rightarrow> field_init nm N selfc [TObjectId] kw self)"
| "field_init nm SelfishFieldC selfc types kw self =
     (case super_init_target SelfishFieldC selfc of
        Inl e \<Rightarrow> Inl e
      | Inr None \<Rightarrow> Inr self
      | Inr (Some N) \<Rightarrow> field_init nm N selfc types kw self)"
| "field_init nm ListFieldC selfc types kw self =
     (let kw1 = kw\<lparr>kw_default := DCall PList\<rparr> in
      case super_init_target ListFieldC selfc of
        Inl e \<Rightarrow> Inl e
      | Inr None \<Rightarrow> Inr self
      | Inr (Some N) \<Rightarrow> field_init nm N selfc types kw1 self)"
| "field_init nm ListRefFieldC selfc types kw self =
     (let self1 = self\<lparr>fdoc_types := doc_types_of nm types\<rparr> in
      case super_init_target ListRefFieldC selfc of
        Inl e \<Rightarrow> Inl e
      | Inr None \<Rightarrow> Inr self1
      | Inr (Some N) \<Rightarrow> field_init nm N selfc [TDBRef] kw self1)"
| "field_init nm DictFieldC selfc types kw self =
     (let kw1 = kw\<lparr>kw_default := DCall PDict\<rparr>;
          self1 = self\<lparr>fdoc_types := doc_types_of nm types\<rparr> in
      case super_init_target ListRefFieldC selfc of
        Inl e \<Rightarrow> Inl e
      | Inr None \<Rightarrow> Inr self1
      | Inr (Some N) \<Rightarrow> field_init nm N selfc [TDict] kw1 self1)"
| "field_init nm ListDictFieldC selfc types kw self =
     (let kw1 = kw\<lparr>kw_default := DCall PList\<rparr>;
          self1 = self\<lparr>fdoc_types := doc_types_of nm types\<rparr> in
      case super_init_target ListFieldC selfc of
        Inl e \<Rightarrow> Inl e
      | Inr None \<Rightarrow> Inr self1
      | Inr (Some N) \<Rightarrow> field_init nm N selfc [TDict] kw1 self1)"
  by pat_completeness auto
termination
proof (relation "measure (\<lambda>(nm, T, selfc, types, kw, self). frank T)")
qed (auto dest: super_init_target_rank)

text \<open>
  Calling a field class: a fresh object of that class is made and the first
  \<^verbatim>\<open>__init__\<close> in its resolution order runs on it.
\<close>

definition new_field ::
  "(cid \<Rightarrow> string) \<Rightarrow> nat \<Rightarrow> fclass \<Rightarrow> pytype list \<Rightarrow> fkwargs \<Rightarrow> error + field" where
  "new_field nm i C types kw =
     (case find defines_init (fmro C) of
        None \<Rightarrow> Inl Unmodelled
      | Some T \<Rightarrow>
          field_init nm T C types kw
            \<lparr>fcls = C, fname = None, ftypes = [], fdefault = DNone, frequired = False,
             fdoc_types = [], fid = i\<rparr>)"

section \<open>Document classes (MetaDocument)\<close>

text \<open>
  A class attribute is a field or something else (a method, a property, a constant).
  The helper \<^verbatim>\<open>is_field\<close> of \<^verbatim>\<open>utils\<close> tells the two apart.
\<close>

datatype attr = AField field | AOther

text \<open>
  A document class: its name, the attributes of its class body, the rest of its
  \<^verbatim>\<open>__mro__\<close> (the document classes behind the class itself, nearest first), the list
  that \<^verbatim>\<open>rget_subclasses(cls)\<close> returns (\<^verbatim>\<open>utils\<close> is not part of the sources; the
  list is a parameter), and the collection name of the \<^verbatim>\<open>_collection\<close> attribute when
  the class has one.
\<close>

record cls =
  cname :: string
  cbody :: "(string \<times> attr) list"
  cancestors :: "cid list"
  crsubs :: "cid list"
  ccollection :: "string option"

type_synonym ctable = "cid \<Rightarrow> cls"

text \<open>\<^verbatim>\<open>Field(basestring, default=clsname)\<close> and \<^verbatim>\<open>ObjectIdField()\<close>, as \<open>new_field\<close> builds them.\<close>

definition type_field :: "string \<Rightarrow> field" where
  "type_field clsname =
     \<lparr>fcls = FieldC, fname = None, ftypes = [TBasestring], fdefault = DValue (VStr clsname),
      frequired = False, fdoc_types = [], fid = 0\<rparr>"

definition id_field :: field where
  "id_field =
     \<lparr>fcls = ObjectIdFieldC, fname = None, ftypes = [TObjectId], fdefault = DNone,
      frequired = False, fdoc_types = [], fid = 0\<rparr>"

text \<open>
  \<^verbatim>\<open>MetaDocument.__new__\<close>: the class dictionary gets \<^verbatim>\<open>_type\<close>, \<^verbatim>\<open>_id\<close> and
  \<^verbatim>\<open>__cache__\<close>, every field is named after the attribute it is bound to, and
  \<^verbatim>\<open>__init__\<close> is installed. The cache itself is mutable and lives in the state.
\<close>

definition MetaDocument_new :: "string \<Rightarrow> (string \<times> attr) list \<Rightarrow> (string \<times> attr) list" where
  "MetaDocument_new clsname attrs =
     (let a1 = AList.update ''_type'' (AField (type_field clsname)) attrs;
          a2 = AList.update ''_id'' (AField id_field) a1;
          a3 = AList.update ''__cache__'' AOther a2;
          a4 = map (\<lambda>(name, v).
                 (name, case v of AField f \<Rightarrow> AField (f\<lparr>fname := Some name\<rparr>) | AOther \<Rightarrow> AOther)) a3
      in AList.update ''__init__'' AOther a4)"

definition cdict :: "ctable \<Rightarrow> cid \<Rightarrow> (string \<times> attr) list" where
  "cdict ct c = MetaDocument_new (cname (ct c)) (cbody (ct c))"

definition mro :: "ctable \<Rightarrow> cid \<Rightarrow> cid list" where
  "mro ct c = c # cancestors (ct c)"

text \<open>
  The loop of the \<^verbatim>\<open>fields\<close> property (\<open>fields_py\<close>), \<^verbatim>\<open>attrs.update(obj.__dict__)\<close> from the most
  basic class to the class itself, and its filter. The order of an association list
  stands for the iteration order of the dictionary, which Python 2 leaves open.
\<close>

definition class_attrs :: "ctable \<Rightarrow> cid \<Rightarrow> (string \<times> attr) list" where
  "class_attrs ct c = foldl (\<lambda>attrs obj. AList.merge attrs (cdict ct obj)) [] (rev (mro ct c))"

definition fields_py :: "ctable \<Rightarrow> cid \<Rightarrow> (string \<times> field) list" where
  "fields_py ct c =
     List.map_filter (\<lambda>(k, v). case v of AField f \<Rightarrow> Some (k, f) | AOther \<Rightarrow> None)
       (class_attrs ct c)"

text \<open>\<^verbatim>\<open>getattr(cls, "_collection", {"name": cls.__name__})\<close>, reduced to the name.\<close>

definition collection :: "ctable \<Rightarrow> cid \<Rightarrow> string" where
  "collection ct c = (case ccollection (ct c) of Some n \<Rightarrow> n | None \<Rightarrow> cname (ct c))"

section \<open>The program state\<close>

text \<open>
  A document instance has its class, its backing dictionary \<^verbatim>\<open>_data\<close> and the other
  attributes that \<^verbatim>\<open>setattr\<close> put on it.
\<close>

record document =
  icls :: cid
  data :: pydict
  iattrs :: pydict

text \<open>The calls made on the storage collaborator (pymongo), in order.\<close>

datatype dbcall =
    Insert string pydict
  | Update string pydict pydict
  | Remove string pydict
  | Find string pydict
  | FindOne string pydict
  | Dereference pyval

text \<open>
  \<open>insts\<close> and \<open>lists\<close> are the stores of document instances and of list objects;
  \<open>ninsts\<close> and \<open>nlists\<close> are the next free addresses. \<open>collected\<close> holds the instances
  that have been garbage collected: a weak reference to one of them gives \<^verbatim>\<open>None\<close>.
  \<open>caches c\<close> is \<^verbatim>\<open>c.__cache__\<close>, from identity to the weakly referenced instance.
  \<open>fvalue i\<close> is the \<^verbatim>\<open>_value\<close> slot of the field object \<open>i\<close>. \<open>next_oid\<close> numbers the
  identities that the collaborator's \<^verbatim>\<open>insert\<close> hands out.
\<close>

record state =
  insts :: "addr \<Rightarrow> document"
  ninsts :: nat
  collected :: "addr set"
  lists :: "addr \<Rightarrow> pyval list"
  nlists :: nat
  caches :: "cid \<Rightarrow> (pyval \<times> addr) list"
  fvalue :: "nat \<Rightarrow> pyval"
  calls :: "dbcall list"
  next_oid :: nat

text \<open>
  An operation returns its result or the exception it raised, and the state it left:
  an exception does not undo what was done before it.
\<close>

type_synonym 'a res = "(error + 'a) \<times> state"

definition set_data :: "addr \<Rightarrow> string \<Rightarrow> pyval \<Rightarrow> state \<Rightarrow> state" where
  "set_data a k v st =
     st\<lparr>insts := (insts st)(a := (insts st a)\<lparr>data := AList.update k v (data (insts st a))\<rparr>)\<rparr>"

definition replace_data :: "addr \<Rightarrow> pydict \<Rightarrow> state \<Rightarrow> state" where
  "replace_data a d st = st\<lparr>insts := (insts st)(a := (insts st a)\<lparr>data := d\<rparr>)\<rparr>"

fun hashable :: "pyval \<Rightarrow> bool" where
  "hashable (VList l) = False"
| "hashable v = True"

fun has_type :: "ctable \<Rightarrow> state \<Rightarrow> pyval \<Rightarrow> pytype \<Rightarrow> bool" where
  "has_type ct st v TInt = (case v of VInt i \<Rightarrow> True | _ \<Rightarrow> False)"
| "has_type ct st v TBasestring = (case v of VStr s \<Rightarrow> True | _ \<Rightarrow> False)"
| "has_type ct st v TList = (case v of VList l \<Rightarrow> True | _ \<Rightarrow> False)"
| "has_type ct st v TDict = False"
| "has_type ct st v TObjectId = (case v of VOid i \<Rightarrow> True | _ \<Rightarrow> False)"
| "has_type ct st v TDBRef = (case v of VDBRef c i \<Rightarrow> True | _ \<Rightarrow> False)"
| "has_type ct st v (TClass c) =
     (case v of VDoc a \<Rightarrow> c \<in> set (mro ct (icls (insts st a))) | _ \<Rightarrow> False)"

definition isinstance_py :: "ctable \<Rightarrow> state \<Rightarrow> pyval \<Rightarrow> pytype list \<Rightarrow> bool" where
  "isinstance_py ct st v ts = list_ex (has_type ct st v) ts"

section \<open>Field descriptors (fields.py)\<close>

text \<open>
  The metaclass names every field after the attribute it is bound to, so
  \<^verbatim>\<open>self.name\<close> of a field is the key under which the class declares it. The descriptor
  functions take that key as \<open>name\<close>.
\<close>

definition BaseField_validate :: "ctable \<Rightarrow> field \<Rightarrow> string \<Rightarrow> pyval \<Rightarrow> state \<Rightarrow> error + unit" where
  "BaseField_validate ct f name v st =
     (if \<not> isinstance_py ct st v (ftypes f)
      then Inl (ValidationError (MustBeOfTypes (Some name) (ftypes f)))
      else Inr ())"

definition BaseField_get :: "string \<Rightarrow> addr \<Rightarrow> state \<Rightarrow> error + pyval" where
  "BaseField_get name inst st =
     (case map_of (data (insts st inst)) name of None \<Rightarrow> Inl KeyError | Some v \<Rightarrow> Inr v)"

definition BaseField_set :: "ctable \<Rightarrow> field \<Rightarrow> string \<Rightarrow> addr \<Rightarrow> pyval \<Rightarrow> state \<Rightarrow> unit res" where
  "BaseField_set ct f name inst v st =
     (case BaseField_validate ct f name v st of
        Inl e \<Rightarrow> (Inl e, st)
      | Inr u \<Rightarrow> (Inr (), set_data inst name v st))"

text \<open>
  \<^verbatim>\<open>SelfishField.__get__\<close> binds the field's \<^verbatim>\<open>_value\<close> to the instance's stored value and
  returns the field object itself, here its identity.
\<close>

definition SelfishField_get :: "field \<Rightarrow> string \<Rightarrow> addr \<Rightarrow> state \<Rightarrow> nat res" where
  "SelfishField_get f name inst st =
     (case map_of (data (insts st inst)) name of
        None \<Rightarrow> (Inl KeyError, st)
      | Some v \<Rightarrow> (Inr (fid f), st\<lparr>fvalue := (fvalue st)(fid f := v)\<rparr>))"

definition SelfishField_set :: "field \<Rightarrow> string \<Rightarrow> addr \<Rightarrow> pyval \<Rightarrow> state \<Rightarrow> unit res" where
  "SelfishField_set f name inst v st =
     (Inr (), set_data inst name v (st\<lparr>fvalue := (fvalue st)(fid f := v)\<rparr>))"

text \<open>\<^verbatim>\<open>for item in value: self.validate(item)\<close>\<close>

fun validate_items :: "ctable \<Rightarrow> field \<Rightarrow> string \<Rightarrow> pyval list \<Rightarrow> state \<Rightarrow> error + unit" where
  "validate_items ct f name [] st = Inr ()"
| "validate_items ct f name (item # items) st =
     (case BaseField_validate ct f name item st of
        Inl e \<Rightarrow> Inl e
      | Inr u \<Rightarrow> validate_items ct f name items st)"

definition ListField_set :: "ctable \<Rightarrow> field \<Rightarrow> string \<Rightarrow> addr \<Rightarrow> pyval \<Rightarrow> state \<Rightarrow> unit res" where
  "ListField_set ct f name inst v st =
     (case v of
        VList l \<Rightarrow>
          (case validate_items ct f name (lists st l) st of
             Inl e \<Rightarrow> (Inl e, st)
           | Inr u \<Rightarrow> (Inr (), set_data inst name v (st\<lparr>fvalue := (fvalue st)(fid f := v)\<rparr>)))
      | _ \<Rightarrow> (Inl (ValidationError MustBeList), st))"

text \<open>Indexing a Python list with an integer: negative keys count from the end.\<close>

definition list_index :: "'a list \<Rightarrow> int \<Rightarrow> nat option" where
  "list_index xs key =
     (let n = int (length xs); j = (if key < 0 then n + key else key)
      in if 0 \<le> j \<and> j < n then Some (nat j) else None)"

definition ListField_getitem :: "field \<Rightarrow> int \<Rightarrow> state \<Rightarrow> error + pyval" where
  "ListField_getitem f key st =
     (case fvalue st (fid f) of
        VList l \<Rightarrow>
          (case list_index (lists st l) key of
             None \<Rightarrow> Inl IndexError
           | Some j \<Rightarrow> Inr (lists st l ! j))
      | _ \<Rightarrow> Inl TypeError)"


section \<open>Documents (documents.py)\<close>

text \<open>
  \<^verbatim>\<open>self.name\<close> on a document, as \<^verbatim>\<open>validate\<close> evaluates it for its message. The
  attribute is looked up on the class first: a field answers through \<^verbatim>\<open>__get__\<close>
  (a reference field would dereference through the storage collaborator, which is left
  \<open>Unmodelled\<close>); another class attribute, or none, lets the instance's own attributes
  answer.
\<close>

definition getattr_name :: "ctable \<Rightarrow> addr \<Rightarrow> state \<Rightarrow> attrval res" where
  "getattr_name ct self st =
     (case map_of (class_attrs ct (icls (insts st self))) ''name'' of
        Some (AField f) \<Rightarrow>
          (if fcls f \<in> {BaseFieldC, FieldC, ObjectIdFieldC} then
             (case BaseField_get ''name'' self st of
                Inl e \<Rightarrow> (Inl e, st)
              | Inr v \<Rightarrow> (Inr (Val v), st))
           else if fcls f \<in> {SelfishFieldC, ListFieldC, ListRefFieldC, ListDictFieldC} then
             (case SelfishField_get f ''name'' self st of
                (Inl e, st1) \<Rightarrow> (Inl e, st1)
              | (Inr i, st1) \<Rightarrow> (Inr (Proxy i), st1))
           else (Inl Unmodelled, st))
      | Some AOther \<Rightarrow>
          (case map_of (iattrs (insts st self)) ''name'' of
             Some v \<Rightarrow> (Inr (Val v), st)
           | None \<Rightarrow> (Inr ClassAttr, st))
      | None \<Rightarrow>
          (case map_of (iattrs (insts st self)) ''name'' of
             Some v \<Rightarrow> (Inr (Val v), st)
           | None \<Rightarrow> (Inl AttributeError, st)))"

text \<open>The loop of \<^verbatim>\<open>validate\<close>: the names of the required fields that are not in the data.\<close>

definition missing_fields :: "ctable \<Rightarrow> addr \<Rightarrow> state \<Rightarrow> string list" where
  "missing_fields ct self st =
     map fst (filter (\<lambda>(name, f). frequired f \<and> map_of (data (insts st self)) name = None)
       (fields_py ct (icls (insts st self))))"

definition validate :: "ctable \<Rightarrow> addr \<Rightarrow> state \<Rightarrow> unit res" where
  "validate ct self st =
     (let missing = missing_fields ct self st in
      if missing \<noteq> [] then
        (case getattr_name ct self st of
           (Inl e, st1) \<Rightarrow> (Inl e, st1)
         | (Inr nm, st1) \<Rightarrow> (Inl (ValidationError (MissingFields nm missing)), st1))
      else (Inr (), st))"

text \<open>\<^verbatim>\<open>self.__cache__[_id] = weakref.ref(self, ...)\<close>; a list is not hashable.\<close>

definition cache :: "addr \<Rightarrow> pyval \<Rightarrow> state \<Rightarrow> unit res" where
  "cache self i st =
     (if \<not> hashable i then (Inl TypeError, st)
      else (Inr (),
        st\<lparr>caches := (caches st)(icls (insts st self) :=
              AList.update i self (caches st (icls (insts st self))))\<rparr>))"

text \<open>
  \<^verbatim>\<open>get_cache\<close>: \<^verbatim>\<open>ref = cls.__cache__.get(_id)\<close>, then \<^verbatim>\<open>ref()\<close>, which is \<^verbatim>\<open>None\<close>
  for an instance that was collected.
\<close>

definition get_cache :: "cid \<Rightarrow> pyval \<Rightarrow> state \<Rightarrow> error + addr option" where
  "get_cache c i st =
     (if \<not> hashable i then Inl TypeError
      else case map_of (caches st c) i of
        None \<Rightarrow> Inr None
      | Some a \<Rightarrow> Inr (if a \<in> collected st then None else Some a))"

text \<open>
  \<^verbatim>\<open>save\<close>. The assignment \<^verbatim>\<open>self._id = ...\<close> goes through the \<^verbatim>\<open>_id\<close> field that the
  metaclass puts on every class, an \<^verbatim>\<open>ObjectIdField\<close>. The collaborator's \<^verbatim>\<open>insert\<close>
  returns the identity it assigned.
\<close>

definition save :: "ctable \<Rightarrow> addr \<Rightarrow> state \<Rightarrow> addr res" where
  "save ct self st =
     (let col = collection ct (icls (insts st self)) in
      case validate ct self st of
        (Inl e, st1) \<Rightarrow> (Inl e, st1)
      | (Inr u, st1) \<Rightarrow>
          (case map_of (data (insts st1 self)) ''_id'' of
             None \<Rightarrow>
               (let st2 = st1\<lparr>calls := calls st1 @ [Insert col (data (insts st1 self))],
                              next_oid := Suc (next_oid st1)\<rparr>
                in case BaseField_set ct id_field ''_id'' self (VOid (next_oid st1)) st2 of
                     (Inl e, st3) \<Rightarrow> (Inl e, st3)
                   | (Inr u, st3) \<Rightarrow>
                       (case BaseField_get ''_id'' self st3 of
                          Inl e \<Rightarrow> (Inl e, st3)
                        | Inr i \<Rightarrow>
                            (case cache self i st3 of
                               (Inl e, st4) \<Rightarrow> (Inl e, st4)
                             | (Inr u, st4) \<Rightarrow> (Inr self, st4))))
           | Some i \<Rightarrow>
               (Inr self,
                st1\<lparr>calls := calls st1 @ [Update col [(''_id'', i)] (data (insts st1 self))]\<rparr>)))"

text \<open>
  The \<^verbatim>\<open>ref\<close> property. \<^verbatim>\<open>DBRef\<close> (of \<^verbatim>\<open>bson\<close>) refuses a collection that is not a
  string.
\<close>

definition Document_ref :: "ctable \<Rightarrow> addr \<Rightarrow> state \<Rightarrow> pyval res" where
  "Document_ref ct self st =
     (case (if map_of (data (insts st self)) ''_id'' = None then save ct self st
            else (Inr self, st)) of
        (Inl e, st1) \<Rightarrow> (Inl e, st1)
      | (Inr a, st1) \<Rightarrow>
          (case BaseField_get ''_type'' self st1 of
             Inl e \<Rightarrow> (Inl e, st1)
           | Inr t \<Rightarrow>
               (case BaseField_get ''_id'' self st1 of
                  Inl e \<Rightarrow> (Inl e, st1)
                | Inr i \<Rightarrow>
                    (case t of
                       VStr s \<Rightarrow> (Inr (VDBRef t i), st1)
                     | _ \<Rightarrow> (Inl TypeError, st1)))))"

text \<open>\<^verbatim>\<open>BaseField.to_ref\<close>: only a document has a \<^verbatim>\<open>ref\<close> attribute.\<close>

definition to_ref :: "ctable \<Rightarrow> pyval \<Rightarrow> state \<Rightarrow> pyval res" where
  "to_ref ct v st =
     (case v of
        VDBRef c i \<Rightarrow> (Inr v, st)
      | VDoc d \<Rightarrow> Document_ref ct d st
      | _ \<Rightarrow> (Inl AttributeError, st))"

definition RefField_set :: "ctable \<Rightarrow> field \<Rightarrow> string \<Rightarrow> addr \<Rightarrow> pyval \<Rightarrow> state \<Rightarrow> unit res" where
  "RefField_set ct f name inst v st =
     (case to_ref ct v st of
        (Inl e, st1) \<Rightarrow> (Inl e, st1)
      | (Inr r, st1) \<Rightarrow> (Inr (), set_data inst name r st1))"

text \<open>
  Which \<^verbatim>\<open>__set__\<close> a field object answers with, by the resolution order of its class.
  \<^verbatim>\<open>DictField\<close> and \<^verbatim>\<open>ListDictField\<close> store dictionaries, which the model has no
  values for.
\<close>

definition field_set :: "ctable \<Rightarrow> field \<Rightarrow> string \<Rightarrow> addr \<Rightarrow> pyval \<Rightarrow> state \<Rightarrow> unit res" where
  "field_set ct f name inst v st =
     (case fcls f of
        BaseFieldC \<Rightarrow> BaseField_set ct f name inst v st
      | FieldC \<Rightarrow> BaseField_set ct f name inst v st
      | ObjectIdFieldC \<Rightarrow> BaseField_set ct f name inst v st
      | RefFieldC \<Rightarrow> RefField_set ct f name inst v st
      | SelfishFieldC \<Rightarrow> SelfishField_set f name inst v st
      | ListFieldC \<Rightarrow> ListField_set ct f name inst v st
      | ListRefFieldC \<Rightarrow> ListField_set ct f name inst v st
      | DictFieldC \<Rightarrow> (Inl Unmodelled, st)
      | ListDictFieldC \<Rightarrow> (Inl Unmodelled, st))"

text \<open>
  \<^verbatim>\<open>setattr(self, name, value)\<close>: a field of the class takes the value through
  \<^verbatim>\<open>__set__\<close>; any other name becomes an attribute of the instance. Names that collide
  with the attributes of \<^verbatim>\<open>Document\<close> itself (\<^verbatim>\<open>data\<close>, \<^verbatim>\<open>ref\<close>, \<^verbatim>\<open>fields\<close>,
  \<^verbatim>\<open>_data\<close>, the methods) are outside the model.
\<close>

definition setattr_py :: "ctable \<Rightarrow> addr \<Rightarrow> string \<Rightarrow> pyval \<Rightarrow> state \<Rightarrow> unit res" where
  "setattr_py ct self name v st =
     (case map_of (class_attrs ct (icls (insts st self))) name of
        Some (AField f) \<Rightarrow> field_set ct f name self v st
      | _ \<Rightarrow>
          (Inr (),
           st\<lparr>insts := (insts st)(self :=
                 (insts st self)\<lparr>iattrs := AList.update name v (iattrs (insts st self))\<rparr>)\<rparr>))"

text \<open>\<^verbatim>\<open>for name, value in kwargs.iteritems(): setattr(self, name, value)\<close>\<close>

fun setattr_all :: "ctable \<Rightarrow> addr \<Rightarrow> pydict \<Rightarrow> state \<Rightarrow> unit res" where
  "setattr_all ct self [] st = (Inr (), st)"
| "setattr_all ct self ((name, v) # kwargs) st =
     (case setattr_py ct self name v st of
        (Inl e, st1) \<Rightarrow> (Inl e, st1)
      | (Inr u, st1) \<Rightarrow> setattr_all ct self kwargs st1)"

text \<open>
  \<^verbatim>\<open>copy(field.default)\<close> is the shallow \<^verbatim>\<open>copy.copy\<close>: a list is copied into a new list
  object that holds the same elements; an immutable value is returned as it is. The copy
  of a document instance would share its \<^verbatim>\<open>_data\<close> dictionary and is left \<open>Unmodelled\<close>.
\<close>

definition copy_py :: "pyval \<Rightarrow> state \<Rightarrow> pyval res" where
  "copy_py v st =
     (case v of
        VList l \<Rightarrow>
          (Inr (VList (nlists st)),
           st\<lparr>lists := (lists st)(nlists st := lists st l), nlists := Suc (nlists st)\<rparr>)
      | VDoc d \<Rightarrow> (Inl Unmodelled, st)
      | _ \<Rightarrow> (Inr v, st))"

text \<open>\<^verbatim>\<open>field.default()\<close>\<close>

definition call_producer :: "producer \<Rightarrow> state \<Rightarrow> pyval res" where
  "call_producer p st =
     (case p of
        PList \<Rightarrow>
          (Inr (VList (nlists st)),
           st\<lparr>lists := (lists st)(nlists st := []), nlists := Suc (nlists st)\<rparr>)
      | PDict \<Rightarrow> (Inl Unmodelled, st)
      | PConst v \<Rightarrow> (Inr v, st))"

text \<open>\<^verbatim>\<open>self._data.setdefault(name, defl)\<close>\<close>

definition setdefault :: "addr \<Rightarrow> string \<Rightarrow> pyval \<Rightarrow> state \<Rightarrow> state" where
  "setdefault self name defl st =
     (if map_of (data (insts st self)) name = None then set_data self name defl st else st)"

text \<open>The second loop of \<^verbatim>\<open>__init__\<close>, over \<^verbatim>\<open>self.fields.iteritems()\<close>.\<close>

fun fill_defaults :: "addr \<Rightarrow> (string \<times> field) list \<Rightarrow> state \<Rightarrow> unit res" where
  "fill_defaults self [] st = (Inr (), st)"
| "fill_defaults self ((name, f) # fs) st =
     (case fdefault f of
        DNone \<Rightarrow> fill_defaults self fs st
      | DValue v \<Rightarrow>
          (case copy_py v st of
             (Inl e, st1) \<Rightarrow> (Inl e, st1)
           | (Inr defl, st1) \<Rightarrow> fill_defaults self fs (setdefault self name defl st1))
      | DCall p \<Rightarrow>
          (case call_producer p st of
             (Inl e, st1) \<Rightarrow> (Inl e, st1)
           | (Inr defl, st1) \<Rightarrow> fill_defaults self fs (setdefault self name defl st1)))"

text \<open>The \<^verbatim>\<open>__init__\<close> that the metaclass installs, run on the instance \<open>self\<close>.\<close>

definition Document_init :: "ctable \<Rightarrow> addr \<Rightarrow> pydict \<Rightarrow> state \<Rightarrow> unit res" where
  "Document_init ct self kwargs st =
     (case (case map_of kwargs ''_id'' of
              None \<Rightarrow> (Inr (), st)
            | Some i \<Rightarrow>
                if \<not> hashable i then (Inl TypeError, st)
                else if map_of (caches st (icls (insts st self))) i = None then cache self i st
                else (Inr (), st)) of
        (Inl e, st1) \<Rightarrow> (Inl e, st1)
      | (Inr u, st1) \<Rightarrow>
          (case setattr_all ct self kwargs (replace_data self [] st1) of
             (Inl e, st2) \<Rightarrow> (Inl e, st2)
           | (Inr u, st2) \<Rightarrow> fill_defaults self (fields_py ct (icls (insts st2 self))) st2))"

text \<open>
  Calling a document class, \<^verbatim>\<open>cls(**kwargs)\<close>: a new instance is allocated at the next
  free address, alive, and \<^verbatim>\<open>__init__\<close> runs on it.
\<close>

definition Document_new :: "ctable \<Rightarrow> cid \<Rightarrow> pydict \<Rightarrow> state \<Rightarrow> addr res" where
  "Document_new ct c kwargs st =
     (let self = ninsts st;
          st0 = st\<lparr>insts := (insts st)(self := \<lparr>icls = c, data = [], iattrs = []\<rparr>),
                   ninsts := Suc (ninsts st), collected := collected st - {self}\<rparr>
      in case Document_init ct self kwargs st0 of
           (Inl e, st1) \<Rightarrow> (Inl e, st1)
         | (Inr u, st1) \<Rightarrow> (Inr self, st1))"


text \<open>
  \<^verbatim>\<open>generate_objects\<close>. The generator is run to its end or to the first exception; the
  result is the list of the documents it yielded and the exception, if any.
\<close>

fun generate_objects :: "ctable \<Rightarrow> cid \<Rightarrow> pydict list \<Rightarrow> state \<Rightarrow> (addr list \<times> error option) \<times> state" where
  "generate_objects ct c [] st = (([], None), st)"
| "generate_objects ct c (doc # cursor) st =
     (case (case map_of doc ''_id'' of
              None \<Rightarrow> (Inl KeyError, st)
            | Some i \<Rightarrow>
                if \<not> hashable i then (Inl TypeError, st)
                else if map_of (caches st c) i \<noteq> None then
                  (case get_cache c i st of
                     Inl e \<Rightarrow> (Inl e, st)
                   | Inr None \<Rightarrow> (Inl AttributeError, st)
                   | Inr (Some document) \<Rightarrow> (Inr document, replace_data document doc st))
                else Document_new ct c doc st) of
        (Inl e, st1) \<Rightarrow> (([], Some e), st1)
      | (Inr document, st1) \<Rightarrow>
          (case generate_objects ct c cursor st1 of
             ((ds, err), st2) \<Rightarrow> ((document # ds, err), st2)))"

datatype found = RawDocs "pydict list" | Objects "addr list" "error option"

text \<open>
  \<^verbatim>\<open>find\<close>. \<open>docs\<close> is what the collaborator's \<^verbatim>\<open>find(spec)\<close> returned.
\<close>

definition find_py :: "ctable \<Rightarrow> cid \<Rightarrow> bool \<Rightarrow> pydict \<Rightarrow> pydict list \<Rightarrow> state \<Rightarrow> found \<times> state" where
  "find_py ct c decode spec docs st =
     (let st0 = st\<lparr>calls := calls st @ [Find (collection ct c) spec]\<rparr> in
      if \<not> decode then (RawDocs docs, st0)
      else (case generate_objects ct c docs st0 of
              ((ds, err), st1) \<Rightarrow> (Objects ds err, st1)))"

datatype found_one = RawDoc "pydict option" | Object addr

text \<open>
  \<^verbatim>\<open>find_one\<close>. \<open>doc\<close> is what the collaborator's \<^verbatim>\<open>find_one(spec)\<close> returned,
  \<open>None\<close> when no document matches. Subscripting \<^verbatim>\<open>None\<close> raises \<^verbatim>\<open>TypeError\<close>.
\<close>

definition find_one :: "ctable \<Rightarrow> cid \<Rightarrow> bool \<Rightarrow> pydict \<Rightarrow> pydict option \<Rightarrow> state \<Rightarrow> found_one res" where
  "find_one ct c decode spec doc st =
     (let st0 = st\<lparr>calls := calls st @ [FindOne (collection ct c) spec]\<rparr> in
      if \<not> decode then (Inr (RawDoc doc), st0)
      else
        (case doc of
           None \<Rightarrow> (Inl TypeError, st0)
         | Some d \<Rightarrow>
             (case map_of d ''_id'' of
                None \<Rightarrow> (Inl KeyError, st0)
              | Some i \<Rightarrow>
                  if \<not> hashable i then (Inl TypeError, st0)
                  else if map_of (caches st0 c) i \<noteq> None then
                    (case get_cache c i st0 of
                       Inl e \<Rightarrow> (Inl e, st0)
                     | Inr None \<Rightarrow> (Inl AttributeError, st0)
                     | Inr (Some document) \<Rightarrow> (Inr (Object document), replace_data document d st0))
                  else
                    (case Document_new ct c d st0 of
                       (Inl e, st1) \<Rightarrow> (Inl e, st1)
                     | (Inr document, st1) \<Rightarrow> (Inr (Object document), st1)))))"


text \<open>\<^verbatim>\<open>remove\<close>\<close>

definition remove :: "ctable \<Rightarrow> addr \<Rightarrow> state \<Rightarrow> state" where
  "remove ct self st =
     (case map_of (data (insts st self)) ''_id'' of
        None \<Rightarrow> st
      | Some i \<Rightarrow>
          st\<lparr>calls := calls st @ [Remove (collection ct (icls (insts st self))) [(''_id'', i)]]\<rparr>)"



text \<open>
  \<^verbatim>\<open>cache_ref_deleted\<close>, the callback of the weak reference: the first entry of the
  class's cache that holds the dead reference is popped; when there is none,
  \<^verbatim>\<open>found\<close> is still \<^verbatim>\<open>None\<close> and that key is popped (the \<^verbatim>\<open>KeyError\<close> of a missing
  key is swallowed by the callback machinery). A weak reference is identified with the
  address it points to.
\<close>

definition cache_ref_deleted :: "cid \<Rightarrow> addr \<Rightarrow> state \<Rightarrow> state" where
  "cache_ref_deleted c wref st =
     (let found = (case find (\<lambda>(i, r). r = wref) (caches st c) of
                     None \<Rightarrow> VNone
                   | Some (i, r) \<Rightarrow> i)
      in st\<lparr>caches := (caches st)(c := AList.delete found (caches st c))\<rparr>)"

text \<open>
  The death of an instance that nothing refers to strongly any more: it is marked as
  collected and the callback runs once for every weak reference the cache holds to it.
\<close>

definition collect :: "addr \<Rightarrow> state \<Rightarrow> state" where
  "collect a st =
     (let c = icls (insts st a);
          n = length (filter (\<lambda>(i, r). r = a) (caches st c))
      in ((cache_ref_deleted c a) ^^ n) (st\<lparr>collected := insert a (collected st)\<rparr>))"

section \<open>Relations between states\<close>

text \<open>
  An identity is old in a state when the collaborator will not hand it out again: the
  model's \<^verbatim>\<open>insert\<close> assigns \<open>VOid (next_oid st)\<close> and counts up.
\<close>

definition old_identity :: "state \<Rightarrow> pyval \<Rightarrow> bool" where
  "old_identity st i = (case i of VOid n \<Rightarrow> n < next_oid st | _ \<Rightarrow> True)"

text \<open>
  What every step of \<^verbatim>\<open>__init__\<close> after the allocation leaves alone: no instance is
  allocated or collected or changes its class, list objects that exist keep their
  elements, and the cache entries of old identities stay as they are.
\<close>

definition frame :: "state \<Rightarrow> state \<Rightarrow> bool" where
  "frame st st' \<longleftrightarrow>
     ninsts st' = ninsts st \<and> collected st' = collected st \<and>
     (\<forall>a. icls (insts st' a) = icls (insts st a)) \<and>
     next_oid st \<le> next_oid st' \<and> nlists st \<le> nlists st' \<and>
     (\<forall>l<nlists st. lists st' l = lists st l) \<and>
     (\<forall>c i. old_identity st i \<longrightarrow> map_of (caches st' c) i = map_of (caches st c) i)"

definition same_but_fvalue :: "state \<Rightarrow> state \<Rightarrow> bool" where
  "same_but_fvalue st st1 \<longleftrightarrow> (\<exists>g. st1 = st\<lparr>fvalue := g\<rparr>)"

section \<open>Example classes\<close>

text \<open>
  The classes used to run the model on concrete inputs:
  \<^verbatim>\<open>
  class User(Document):            # class 1
      name = Field(basestring, required=True)
      tags = ListField(basestring)
  class Admin(User): pass          # class 2
  class Article(Document):         # class 3
      title = Field(basestring, required=True)
      author = RefField(User)
      grid = Field(list, default=[[1]])
  \<close>
  Class 0 is \<^verbatim>\<open>Document\<close> itself. The default of \<^verbatim>\<open>grid\<close> is the list object at address
  0 of \<open>classes_loaded\<close>, whose only element is the list object at address 1.
\<close>

definition ex_classes :: ctable where
  "ex_classes c =
     (if c = 1 then
        \<lparr>cname = ''User'',
         cbody = [(''name'', AField \<lparr>fcls = FieldC, fname = None, ftypes = [TBasestring],
                     fdefault = DNone, frequired = True, fdoc_types = [], fid = 1\<rparr>),
                  (''tags'', AField \<lparr>fcls = ListFieldC, fname = None, ftypes = [TBasestring],
                     fdefault = DCall PList, frequired = False, fdoc_types = [], fid = 2\<rparr>)],
         cancestors = [0], crsubs = [2], ccollection = None\<rparr>
      else if c = 2 then
        \<lparr>cname = ''Admin'', cbody = [], cancestors = [1, 0], crsubs = [], ccollection = None\<rparr>
      else if c = 3 then
        \<lparr>cname = ''Article'',
         cbody = [(''title'', AField \<lparr>fcls = FieldC, fname = None, ftypes = [TBasestring],
                     fdefault = DNone, frequired = True, fdoc_types = [], fid = 3\<rparr>),
                  (''author'', AField \<lparr>fcls = RefFieldC, fname = None, ftypes = [TDBRef],
                     fdefault = DNone, frequired = False,
                     fdoc_types = [(''User'', TClass 1)], fid = 4\<rparr>),
                  (''grid'', AField \<lparr>fcls = FieldC, fname = None, ftypes = [TList],
                     fdefault = DValue (VList 0), frequired = False, fdoc_types = [], fid = 5\<rparr>)],
         cancestors = [0], crsubs = [], ccollection = None\<rparr>
      else
        \<lparr>cname = ''Document'', cbody = [], cancestors = [], crsubs = [1, 2, 3],
         ccollection = None\<rparr>)"

definition classes_loaded :: state where
  "classes_loaded =
     \<lparr>insts = (\<lambda>a. \<lparr>icls = 0, data = [], iattrs = []\<rparr>), ninsts = 0, collected = {},
      lists = (\<lambda>l. if l = 0 then [VList 1] else if l = 1 then [VInt 1] else []), nlists = 2,
      caches = (\<lambda>c. []), fvalue = (\<lambda>i. VNone), calls = [], next_oid = 0\<rparr>"


definition alice_new :: state where
  "alice_new = snd (Document_new ex_classes 1 [(''name'', VStr ''alice'')] classes_loaded)"


text \<open>
  \<^verbatim>\<open>Article(title="t")\<close> made after \<^verbatim>\<open>User(name="alice")\<close>: the user is instance 0,
  the article instance 1; \<open>author_field\<close> is the field object \<^verbatim>\<open>Article.author\<close>.
\<close>

definition alice_and_article :: state where
  "alice_and_article = snd (Document_new ex_classes 3 [(''title'', VStr ''t'')] alice_new)"

definition author_field :: field where
  "author_field = \<lparr>fcls = RefFieldC, fname = Some ''author'', ftypes = [TDBRef],
     fdefault = DNone, frequired = False, fdoc_types = [(''User'', TClass 1)], fid = 4\<rparr>"



text \<open>
  A session in which the collaborator has already handed out the identities 0 to 7, and
  the same after \<^verbatim>\<open>User(_id=ObjectId(7), name="alice")\<close> was made (instance 0).
\<close>

definition storage_used :: state where
  "storage_used = classes_loaded\<lparr>next_oid := 8\<rparr>"

definition user7_loaded :: state where
  "user7_loaded =
     snd (Document_new ex_classes 1 [(''_id'', VOid 7), (''name'', VStr ''alice'')] storage_used)"








section \<open>Field construction\<close>

lemma type_field_constructed:
  "new_field nm 0 FieldC [TBasestring]
     \<lparr>kw_name = None, kw_default = DValue (VStr clsname), kw_required = False\<rparr>
   = Inr (type_field clsname)"
  by (simp add: new_field_def type_field_def)

lemma id_field_constructed:
  "new_field nm 0 ObjectIdFieldC []
     \<lparr>kw_name = None, kw_default = DNone, kw_required = False\<rparr>
   = Inr id_field"
  by (simp add: new_field_def id_field_def super_init_target_def)

lemma list_field_default:
  "new_field nm i ListFieldC types kw = Inr f \<Longrightarrow> fdefault f = DCall PList"
  by (auto simp: new_field_def super_init_target_def)


section \<open>find_one without a match\<close>

text \<open>
  C8: when the collaborator finds no document, \<^verbatim>\<open>find_one\<close> with decoding subscripts
  \<^verbatim>\<open>None\<close> and the caller gets a \<^verbatim>\<open>TypeError\<close>; without decoding the same call returns
  the empty result \<^verbatim>\<open>None\<close>.
\<close>

theorem find_one_no_match_raises_TypeError:
  "find_one ct c True spec None st =
     (Inl TypeError, st\<lparr>calls := calls st @ [FindOne (collection ct c) spec]\<rparr>) \<and>
   find_one ct c False spec None st =
     (Inr (RawDoc None), st\<lparr>calls := calls st @ [FindOne (collection ct c) spec]\<rparr>)"
  by (simp add: find_one_def)

section \<open>validate\<close>

lemma missing_fields_complete:
  "set (missing_fields ct self st) =
     {name. \<exists>f. (name, f) \<in> set (fields_py ct (icls (insts st self))) \<and> frequired f \<and>
                 map_of (data (insts st self)) name = None}"
  by (auto simp: missing_fields_def image_iff)

lemma validate_nothing_missing:
  "missing_fields ct self st = [] \<Longrightarrow> validate ct self st = (Inr (), st)"
  by (simp add: validate_def)

lemma validate_aggregate:
  "missing_fields ct self st \<noteq> [] \<Longrightarrow> getattr_name ct self st = (Inr nm, st1) \<Longrightarrow>
   validate ct self st =
     (Inl (ValidationError (MissingFields nm (missing_fields ct self st))), st1)"
  by (simp add: validate_def)


text \<open>
  C6: \<^verbatim>\<open>validate\<close> collects every missing required field, but its message is built
  from \<^verbatim>\<open>self.name\<close>, which a document only has when its class declares a \<^verbatim>\<open>name\<close>
  attribute. An \<^verbatim>\<open>Article\<close> made without arguments misses its required \<^verbatim>\<open>title\<close>, and
  \<^verbatim>\<open>validate\<close> raises \<^verbatim>\<open>AttributeError\<close> instead of the \<^verbatim>\<open>ValidationError\<close>; a
  \<^verbatim>\<open>User\<close> made without arguments misses its required \<^verbatim>\<open>name\<close>, and reading that very
  field for the message raises \<^verbatim>\<open>KeyError\<close>.
\<close>

theorem validate_raises_on_self_name:
  "fst (Document_new ex_classes 3 [] classes_loaded) = Inr 0 \<and>
   missing_fields ex_classes 0 (snd (Document_new ex_classes 3 [] classes_loaded)) = [''title''] \<and>
   fst (validate ex_classes 0 (snd (Document_new ex_classes 3 [] classes_loaded)))
     = Inl AttributeError \<and>
   fst (Document_new ex_classes 1 [] classes_loaded) = Inr 0 \<and>
   missing_fields ex_classes 0 (snd (Document_new ex_classes 1 [] classes_loaded)) = [''name''] \<and>
   fst (validate ex_classes 0 (snd (Document_new ex_classes 1 [] classes_loaded)))
     = Inl KeyError"
  by code_simp

section \<open>Frame lemmas\<close>

lemma old_identity_mono: "old_identity st i \<Longrightarrow> next_oid st \<le> next_oid st' \<Longrightarrow> old_identity st' i"
  by (auto simp: old_identity_def split: pyval.splits)

lemma frame_refl: "frame st st"
  by (simp add: frame_def)

lemma frame_trans:
  assumes "frame st st1" and "frame st1 st2"
  shows "frame st st2"
proof -
  have c: "map_of (caches st2 c) i = map_of (caches st c) i" if o: "old_identity st i" for c i
  proof -
    from o assms(1) have "old_identity st1 i"
      by (auto simp: frame_def intro: old_identity_mono)
    with assms(2) have "map_of (caches st2 c) i = map_of (caches st1 c) i"
      by (simp add: frame_def)
    with o assms(1) show ?thesis by (simp add: frame_def)
  qed
  have l: "lists st2 l = lists st l" if "l < nlists st" for l
    using that assms by (simp add: frame_def)
  from assms have "ninsts st2 = ninsts st" "collected st2 = collected st"
    "\<forall>a. icls (insts st2 a) = icls (insts st a)" "next_oid st \<le> next_oid st2"
    "nlists st \<le> nlists st2"
    by (simp_all add: frame_def)
  with c l show ?thesis by (simp add: frame_def)
qed

lemma frame_set_data: "frame st (set_data a k v st)"
  by (simp add: frame_def set_data_def)

lemma frame_replace_data: "frame st (replace_data a d st)"
  by (simp add: frame_def replace_data_def)

lemma frame_fvalue: "frame st (st\<lparr>fvalue := g\<rparr>)"
  by (simp add: frame_def old_identity_def)


lemma same_but_fvalue_refl: "same_but_fvalue st st"
  unfolding same_but_fvalue_def by (rule exI[of _ "fvalue st"]) simp

lemma same_but_fvalue_upd: "same_but_fvalue st (st\<lparr>fvalue := g\<rparr>)"
  unfolding same_but_fvalue_def by blast


lemma getattr_name_same:
  "getattr_name ct self st = (r, st1) \<Longrightarrow> same_but_fvalue st st1"
  unfolding getattr_name_def SelfishField_get_def
  by (auto split: option.splits attr.splits if_splits sum.splits
      simp: same_but_fvalue_refl same_but_fvalue_upd)

lemma validate_same: "validate ct self st = (r, st1) \<Longrightarrow> same_but_fvalue st st1"
  unfolding validate_def Let_def
  by (auto split: if_splits prod.splits sum.splits simp: same_but_fvalue_refl dest: getattr_name_same)

lemma validate_ok_same: "validate ct self st = (Inr u, st1) \<Longrightarrow> st1 = st"
  by (auto simp: validate_def Let_def split: if_splits prod.splits sum.splits)

lemma save_fail:
  "validate ct self st = (Inl e, st1) \<Longrightarrow> save ct self st = (Inl e, st1)"
  by (simp add: save_def)

lemma isinstance_oid: "isinstance_py ct st (VOid n) (ftypes id_field)"
  by (simp add: isinstance_py_def id_field_def)

lemma save_insert:
  assumes "validate ct self st = (Inr u, st1)"
    and "map_of (data (insts st self)) ''_id'' = None"
  shows "save ct self st =
     (Inr self,
      st\<lparr>calls := calls st @ [Insert (collection ct (icls (insts st self))) (data (insts st self))],
         next_oid := Suc (next_oid st),
         insts := (insts st)(self := (insts st self)
                    \<lparr>data := AList.update ''_id'' (VOid (next_oid st)) (data (insts st self))\<rparr>),
         caches := (caches st)(icls (insts st self) :=
                    AList.update (VOid (next_oid st)) self (caches st (icls (insts st self))))\<rparr>)"
proof -
  from assms(1) have [simp]: "st1 = st" by (rule validate_ok_same)
  from assms show ?thesis
    by (simp add: save_def Let_def BaseField_set_def BaseField_validate_def isinstance_oid
        BaseField_get_def set_data_def cache_def update_conv')
qed

lemma save_update:
  assumes "validate ct self st = (Inr u, st1)"
    and "map_of (data (insts st self)) ''_id'' = Some i"
  shows "save ct self st =
     (Inr self,
      st\<lparr>calls := calls st @ [Update (collection ct (icls (insts st self))) [(''_id'', i)]
                                (data (insts st self))]\<rparr>)"
proof -
  from assms(1) have [simp]: "st1 = st" by (rule validate_ok_same)
  from assms show ?thesis
    by (simp add: save_def Let_def)
qed

lemma frame_same_but_fvalue: "same_but_fvalue st st1 \<Longrightarrow> frame st st1"
  unfolding same_but_fvalue_def by (auto simp: frame_def old_identity_def)

lemma frame_save: 
  assumes "save ct self st = (r, st')" shows "frame st st'"
proof (cases "validate ct self st")
  case (Pair rv st1)
  show ?thesis
  proof (cases rv)
    case (Inl e)
    with Pair assms have "st' = st1" by (simp add: save_fail)
    with Pair show ?thesis by (auto dest: validate_same frame_same_but_fvalue)
  next
    case (Inr u)
    show ?thesis
    proof (cases "map_of (data (insts st self)) ''_id''")
      case None
      from save_insert[OF Pair[unfolded Inr] None] assms
      show ?thesis
        by (auto simp: frame_def old_identity_def update_conv' split: pyval.splits)
    next
      case (Some i)
      from save_update[OF Pair[unfolded Inr] Some] assms
      show ?thesis
        by (auto simp: frame_def old_identity_def)
    qed
  qed
qed

lemma frame_Document_ref:
  assumes "Document_ref ct self st = (r, st')" shows "frame st st'"
proof (cases "map_of (data (insts st self)) ''_id'' = None")
  case True
  obtain rs st1 where s: "save ct self st = (rs, st1)" by (cases "save ct self st")
  with assms True have "st' = st1"
    by (auto simp: Document_ref_def split: sum.splits pyval.splits)
  with s show ?thesis by (auto dest: frame_save)
next
  case False
  with assms have "st' = st"
    by (auto simp: Document_ref_def split: sum.splits pyval.splits)
  then show ?thesis by (simp add: frame_refl)
qed

lemma frame_to_ref: "to_ref ct v st = (r, st') \<Longrightarrow> frame st st'"
  by (auto simp: to_ref_def frame_refl split: pyval.splits dest: frame_Document_ref)

lemma frame_RefField_set: "RefField_set ct f name inst v st = (r, st') \<Longrightarrow> frame st st'"
  by (auto simp: RefField_set_def split: prod.splits sum.splits
      dest!: frame_to_ref intro: frame_trans frame_set_data)

lemma frame_BaseField_set: "BaseField_set ct f name inst v st = (r, st') \<Longrightarrow> frame st st'"
  by (auto simp: BaseField_set_def frame_refl frame_set_data split: sum.splits)

lemma frame_SelfishField_set: "SelfishField_set f name inst v st = (r, st') \<Longrightarrow> frame st st'"
  by (auto simp: SelfishField_set_def intro: frame_trans[OF frame_fvalue frame_set_data])

lemma frame_ListField_set: "ListField_set ct f name inst v st = (r, st') \<Longrightarrow> frame st st'"
  by (auto simp: ListField_set_def frame_refl split: pyval.splits sum.splits
      intro: frame_trans[OF frame_fvalue frame_set_data])

lemma frame_field_set: "field_set ct f name inst v st = (r, st') \<Longrightarrow> frame st st'"
  by (auto simp: field_set_def frame_refl split: fclass.splits
      dest: frame_BaseField_set frame_RefField_set frame_SelfishField_set frame_ListField_set)

lemma frame_iattrs: "frame st (st\<lparr>insts := (insts st)(a := (insts st a)\<lparr>iattrs := x\<rparr>)\<rparr>)"
  by (simp add: frame_def)

lemma frame_setattr_py: "setattr_py ct self name v st = (r, st') \<Longrightarrow> frame st st'"
  by (auto simp: setattr_py_def frame_iattrs split: option.splits attr.splits dest: frame_field_set)

lemma frame_setattr_all: "setattr_all ct self kwargs st = (r, st') \<Longrightarrow> frame st st'"
proof (induction kwargs arbitrary: st)
  case Nil
  then show ?case by (simp add: frame_refl)
next
  case (Cons kv kwargs)
  obtain name v where kv: "kv = (name, v)" by (cases kv)
  obtain r1 st1 where s: "setattr_py ct self name v st = (r1, st1)"
    by (cases "setattr_py ct self name v st")
  then have f1: "frame st st1" by (rule frame_setattr_py)
  show ?case
  proof (cases r1)
    case (Inl e)
    with Cons.prems kv s have "st' = st1" by simp
    with f1 show ?thesis by simp
  next
    case (Inr u)
    with Cons.prems kv s have "setattr_all ct self kwargs st1 = (r, st')" by simp
    then have "frame st1 st'" by (rule Cons.IH)
    with f1 show ?thesis by (rule frame_trans)
  qed
qed

lemma frame_copy_py: "copy_py v st = (r, st') \<Longrightarrow> frame st st'"
  by (auto simp: copy_py_def frame_def split: pyval.splits)

lemma frame_call_producer: "call_producer p st = (r, st') \<Longrightarrow> frame st st'"
  by (auto simp: call_producer_def frame_def split: producer.splits)

lemma frame_setdefault: "frame st (setdefault self name defl st)"
  by (simp add: setdefault_def frame_refl frame_set_data)

lemma frame_fill_defaults: "fill_defaults self fs st = (r, st') \<Longrightarrow> frame st st'"
proof (induction fs arbitrary: st)
  case Nil
  then show ?case by (simp add: frame_refl)
next
  case (Cons nf fs)
  obtain name f where nf: "nf = (name, f)" by (cases nf)
  show ?case
  proof (cases "fdefault f")
    case DNone
    with Cons nf show ?thesis by simp
  next
    case (DValue v)
    obtain r1 st1 where c: "copy_py v st = (r1, st1)" by (cases "copy_py v st")
    then have f1: "frame st st1" by (rule frame_copy_py)
    show ?thesis
    proof (cases r1)
      case (Inl e)
      with Cons.prems nf DValue c f1 show ?thesis by simp
    next
      case (Inr defl)
      with Cons.prems nf DValue c
      have "fill_defaults self fs (setdefault self name defl st1) = (r, st')" by simp
      then have "frame (setdefault self name defl st1) st'" by (rule Cons.IH)
      with f1 show ?thesis by (blast intro: frame_trans frame_setdefault)
    qed
  next
    case (DCall p)
    obtain r1 st1 where c: "call_producer p st = (r1, st1)" by (cases "call_producer p st")
    then have f1: "frame st st1" by (rule frame_call_producer)
    show ?thesis
    proof (cases r1)
      case (Inl e)
      with Cons.prems nf DCall c f1 show ?thesis by simp
    next
      case (Inr defl)
      with Cons.prems nf DCall c
      have "fill_defaults self fs (setdefault self name defl st1) = (r, st')" by simp
      then have "frame (setdefault self name defl st1) st'" by (rule Cons.IH)
      with f1 show ?thesis by (blast intro: frame_trans frame_setdefault)
    qed
  qed
qed

section \<open>save\<close>








section \<open>Reference fields\<close>

lemma Document_ref_with_id:
  assumes "map_of (data (insts st d)) ''_id'' = Some i"
    and "map_of (data (insts st d)) ''_type'' = Some (VStr t)"
  shows "Document_ref ct d st = (Inr (VDBRef (VStr t) i), st)"
  using assms by (simp add: Document_ref_def BaseField_get_def)

lemma Document_ref_fail:
  assumes "map_of (data (insts st d)) ''_id'' = None"
    and "validate ct d st = (Inl e, st1)"
  shows "Document_ref ct d st = (Inl e, st1)"
  using assms by (simp add: Document_ref_def save_fail)

lemma Document_ref_saves:
  assumes "map_of (data (insts st d)) ''_id'' = None"
    and "map_of (data (insts st d)) ''_type'' = Some (VStr t)"
    and "validate ct d st = (Inr (), st)"
  shows "Document_ref ct d st = (Inr (VDBRef (VStr t) (VOid (next_oid st))), snd (save ct d st))"
  using assms
  by (simp add: Document_ref_def save_insert[OF assms(3) assms(1)] BaseField_get_def update_conv')

text \<open>
  C7: writing a reference field. A raw reference is stored as it is. A document that has an
  identity is stored as the reference made of its type tag and its identity, and nothing is
  saved. A document without identity is saved first: one insert is issued, the document
  gets the identity the collaborator assigned, and the reference made of the type tag and
  that identity is stored. When that save fails in validation, the exception is passed on
  and nothing is stored.
\<close>

theorem RefField_set_stores_reference:
  "(RefField_set ct f name inst (VDBRef coll i) st
      = (Inr (), set_data inst name (VDBRef coll i) st)) \<and>
   (map_of (data (insts st d)) ''_id'' = Some i \<and>
    map_of (data (insts st d)) ''_type'' = Some (VStr t) \<longrightarrow>
      RefField_set ct f name inst (VDoc d) st
        = (Inr (), set_data inst name (VDBRef (VStr t) i) st)) \<and>
   (map_of (data (insts st d)) ''_id'' = None \<and>
    map_of (data (insts st d)) ''_type'' = Some (VStr t) \<and>
    validate ct d st = (Inr (), st) \<longrightarrow>
      RefField_set ct f name inst (VDoc d) st
        = (Inr (), set_data inst name (VDBRef (VStr t) (VOid (next_oid st))) (snd (save ct d st))) \<and>
      fst (save ct d st) = Inr d \<and>
      calls (snd (save ct d st))
        = calls st @ [Insert (collection ct (icls (insts st d))) (data (insts st d))] \<and>
      map_of (data (insts (snd (save ct d st)) d)) ''_id'' = Some (VOid (next_oid st))) \<and>
   (map_of (data (insts st d)) ''_id'' = None \<and> validate ct d st = (Inl e, st1) \<longrightarrow>
      RefField_set ct f name inst (VDoc d) st = (Inl e, st1)) \<and>
   map_of (data (insts (set_data inst name r st2) inst)) name = Some r"
proof (intro conjI impI)
  show "RefField_set ct f name inst (VDBRef coll i) st
      = (Inr (), set_data inst name (VDBRef coll i) st)"
    by (simp add: RefField_set_def to_ref_def)
next
  assume "map_of (data (insts st d)) ''_id'' = Some i \<and>
    map_of (data (insts st d)) ''_type'' = Some (VStr t)"
  then show "RefField_set ct f name inst (VDoc d) st
        = (Inr (), set_data inst name (VDBRef (VStr t) i) st)"
    by (simp add: RefField_set_def to_ref_def Document_ref_with_id)
next
  assume a: "map_of (data (insts st d)) ''_id'' = None \<and>
    map_of (data (insts st d)) ''_type'' = Some (VStr t) \<and>
    validate ct d st = (Inr (), st)"
  then show "RefField_set ct f name inst (VDoc d) st
        = (Inr (), set_data inst name (VDBRef (VStr t) (VOid (next_oid st))) (snd (save ct d st)))"
    by (simp add: RefField_set_def to_ref_def Document_ref_saves)
  from a have s: "validate ct d st = (Inr (), st)" "map_of (data (insts st d)) ''_id'' = None"
    by simp_all
  show "fst (save ct d st) = Inr d" by (simp add: save_insert[OF s])
  show "calls (snd (save ct d st))
        = calls st @ [Insert (collection ct (icls (insts st d))) (data (insts st d))]"
    by (simp add: save_insert[OF s])
  show "map_of (data (insts (snd (save ct d st)) d)) ''_id'' = Some (VOid (next_oid st))"
    by (simp add: save_insert[OF s] update_conv')
next
  assume "map_of (data (insts st d)) ''_id'' = None \<and> validate ct d st = (Inl e, st1)"
  then show "RefField_set ct f name inst (VDoc d) st = (Inl e, st1)"
    by (simp add: RefField_set_def to_ref_def Document_ref_fail)
next
  show "map_of (data (insts (set_data inst name r st2) inst)) name = Some r"
    by (simp add: set_data_def update_conv')
qed

lemma alice_and_article_validate:
  "validate ex_classes 0 alice_and_article = (Inr (), alice_and_article)"
  by (rule validate_nothing_missing) code_simp

theorem RefField_set_stores_reference_witness:
  "fst (RefField_set ex_classes author_field ''author'' 1 (VDoc 0) alice_and_article) = Inr () \<and>
   map_of (data (insts (snd (RefField_set ex_classes author_field ''author'' 1 (VDoc 0)
      alice_and_article)) 1)) ''author'' = Some (VDBRef (VStr ''User'') (VOid 0)) \<and>
   map_of (data (insts (snd (save ex_classes 0 alice_and_article)) 0)) ''_id'' = Some (VOid 0) \<and>
   fst (RefField_set ex_classes author_field ''author'' 1 (VDoc 0)
      (snd (save ex_classes 0 alice_and_article))) = Inr () \<and>
   map_of (data (insts (snd (RefField_set ex_classes author_field ''author'' 1 (VDoc 0)
      (snd (save ex_classes 0 alice_and_article)))) 1)) ''author''
     = Some (VDBRef (VStr ''User'') (VOid 0)) \<and>
   calls (snd (RefField_set ex_classes author_field ''author'' 1 (VDoc 0)
      (snd (save ex_classes 0 alice_and_article)))) = calls (snd (save ex_classes 0 alice_and_article))"
proof -
  have e: "map_of (data (insts alice_and_article 0)) ''_id'' = None"
    "map_of (data (insts alice_and_article 0)) ''_type'' = Some (VStr ''User'')"
    "next_oid alice_and_article = 0"
    "map_of (data (insts (snd (save ex_classes 0 alice_and_article)) 0)) ''_id'' = Some (VOid 0)"
    "map_of (data (insts (snd (save ex_classes 0 alice_and_article)) 0)) ''_type''
       = Some (VStr ''User'')"
    by code_simp+
  note t1 = RefField_set_stores_reference[of ex_classes author_field "''author''" 1 VNone VNone
      alice_and_article 0 "''User''" AttributeError alice_and_article
      "VDBRef (VStr ''User'') (VOid 0)" "snd (save ex_classes 0 alice_and_article)"]
  note t2 = RefField_set_stores_reference[of ex_classes author_field "''author''" 1 VNone "VOid 0"
      "snd (save ex_classes 0 alice_and_article)" 0 "''User''" AttributeError alice_and_article
      "VDBRef (VStr ''User'') (VOid 0)" "snd (save ex_classes 0 alice_and_article)"]
  from t1 e alice_and_article_validate
  have 1: "RefField_set ex_classes author_field ''author'' 1 (VDoc 0) alice_and_article
     = (Inr (), set_data 1 ''author'' (VDBRef (VStr ''User'') (VOid 0))
          (snd (save ex_classes 0 alice_and_article)))"
    by simp
  from t2 e
  have 2: "RefField_set ex_classes author_field ''author'' 1 (VDoc 0)
       (snd (save ex_classes 0 alice_and_article))
     = (Inr (), set_data 1 ''author'' (VDBRef (VStr ''User'') (VOid 0))
          (snd (save ex_classes 0 alice_and_article)))"
    by simp
  from t1 have 3: "map_of (data (insts (set_data 1 ''author'' (VDBRef (VStr ''User'') (VOid 0))
          (snd (save ex_classes 0 alice_and_article))) 1)) ''author''
       = Some (VDBRef (VStr ''User'') (VOid 0))"
    by blast
  show ?thesis
    unfolding 1 2 using 3 e by (simp add: set_data_def)
qed

section \<open>The list field proxy\<close>

lemma has_type_insts:
  assumes "insts st' = insts st"
  shows "has_type ct st' v = has_type ct st v"
proof (rule ext)
  fix t
  show "has_type ct st' v t = has_type ct st v t"
    using assms by (cases t) (simp_all split: pyval.splits)
qed

lemma isinstance_py_insts:
  "insts st' = insts st \<Longrightarrow> isinstance_py ct st' v ts = isinstance_py ct st v ts"
  by (simp add: isinstance_py_def has_type_insts[of st' st])

lemma BaseField_validate_insts:
  "insts st' = insts st \<Longrightarrow> BaseField_validate ct f name v st' = BaseField_validate ct f name v st"
  by (simp add: BaseField_validate_def isinstance_py_insts[of st' st])




section \<open>Construction and the identity cache\<close>

lemma init_tail_frame:
  assumes "(case setattr_all ct self kwargs s of
              (Inl e, st2) \<Rightarrow> (Inl e, st2)
            | (Inr u, st2) \<Rightarrow> fill_defaults self (fields_py ct (icls (insts st2 self))) st2)
           = (r, st')"
  shows "frame s st'"
proof -
  obtain r2 st2 where s: "setattr_all ct self kwargs s = (r2, st2)"
    by (cases "setattr_all ct self kwargs s")
  then have f: "frame s st2" by (rule frame_setattr_all)
  show ?thesis
  proof (cases r2)
    case (Inl e)
    with assms s f show ?thesis by simp
  next
    case (Inr u)
    with assms s have "fill_defaults self (fields_py ct (icls (insts st2 self))) st2 = (r, st')"
      by simp
    then have "frame st2 st'" by (rule frame_fill_defaults)
    with f show ?thesis by (rule frame_trans)
  qed
qed

lemma Document_init_cases:
  assumes "Document_init ct self kwargs st = (r, st')"
  shows "(map_of kwargs ''_id'' = None \<and> frame (replace_data self [] st) st') \<or>
         (\<exists>i. map_of kwargs ''_id'' = Some i \<and> \<not> hashable i \<and> st' = st \<and> r = Inl TypeError) \<or>
         (\<exists>i. map_of kwargs ''_id'' = Some i \<and> hashable i \<and>
              map_of (caches st (icls (insts st self))) i = None \<and>
              frame (replace_data self []
                (st\<lparr>caches := (caches st)(icls (insts st self) :=
                      AList.update i self (caches st (icls (insts st self))))\<rparr>)) st') \<or>
         (\<exists>i. map_of kwargs ''_id'' = Some i \<and> hashable i \<and>
              map_of (caches st (icls (insts st self))) i \<noteq> None \<and>
              frame (replace_data self [] st) st')"
proof (cases "map_of kwargs ''_id''")
  case None
  with assms show ?thesis
    by (auto simp: Document_init_def dest: init_tail_frame)
next
  case (Some i)
  show ?thesis
  proof (cases "hashable i")
    case False
    with assms Some show ?thesis by (auto simp: Document_init_def)
  next
    case True
    show ?thesis
    proof (cases "map_of (caches st (icls (insts st self))) i = None")
      case n: True
      with assms Some True show ?thesis
        by (auto simp: Document_init_def cache_def dest: init_tail_frame)
    next
      case False
      with assms Some True show ?thesis
        by (auto simp: Document_init_def dest: init_tail_frame)
    qed
  qed
qed

lemma frame_cache_entry:
  "frame s st' \<Longrightarrow> old_identity s i \<Longrightarrow> map_of (caches st' c) i = map_of (caches s c) i"
  by (simp add: frame_def)

lemma Document_new_cache_entry:
  assumes "Document_new ct c kwargs st = (r, st')"
    and "map_of kwargs ''_id'' = Some i"
    and "hashable i"
    and "old_identity st i"
  shows "(map_of (caches st c) i = None \<longrightarrow> map_of (caches st' c) i = Some (ninsts st)) \<and>
         (\<forall>b. map_of (caches st c) i = Some b \<longrightarrow> map_of (caches st' c) i = Some b) \<and>
         (\<forall>a. r = Inr a \<longrightarrow> a = ninsts st)"
proof -
  define self where "self = ninsts st"
  define st0 where "st0 = st\<lparr>insts := (insts st)(self := \<lparr>icls = c, data = [], iattrs = []\<rparr>),
                               ninsts := Suc (ninsts st), collected := collected st - {self}\<rparr>"
  obtain r1 st1 where i: "Document_init ct self kwargs st0 = (r1, st1)"
    by (cases "Document_init ct self kwargs st0")
  with assms(1) have st': "st' = st1" and r: "\<forall>a. r = Inr a \<longrightarrow> a = self"
    by (auto simp: Document_new_def Let_def self_def st0_def split: sum.splits)
  have c0: "icls (insts st0 self) = c" "caches st0 = caches st"
    by (simp_all add: st0_def)
  have o: "old_identity (replace_data self [] s) i" if "next_oid s = next_oid st" for s
    using assms(4) that by (simp add: old_identity_def replace_data_def split: pyval.splits)
  from Document_init_cases[OF i] assms(2,3)
  consider
    (reg) "map_of (caches st0 c) i = None"
      "frame (replace_data self []
         (st0\<lparr>caches := (caches st0)(c := AList.update i self (caches st0 c))\<rparr>)) st1"
    | (pres) "map_of (caches st0 c) i \<noteq> None" "frame (replace_data self [] st0) st1"
    by (auto simp: c0)
  then have "(map_of (caches st c) i = None \<longrightarrow> map_of (caches st1 c) i = Some self) \<and>
         (\<forall>b. map_of (caches st c) i = Some b \<longrightarrow> map_of (caches st1 c) i = Some b)"
  proof cases
    case reg
    have "old_identity (replace_data self []
         (st0\<lparr>caches := (caches st0)(c := AList.update i self (caches st0 c))\<rparr>)) i"
      by (rule o) (simp add: st0_def)
    from frame_cache_entry[OF reg(2) this, of c] reg(1)
    show ?thesis by (simp add: replace_data_def update_conv' c0)
  next
    case pres
    have "old_identity (replace_data self [] st0) i"
      by (rule o) (simp add: st0_def)
    from frame_cache_entry[OF pres(2) this, of c] pres(1)
    show ?thesis by (simp add: replace_data_def c0)
  qed
  with st' r show ?thesis by (simp add: self_def)
qed

text \<open>
  C4 as stated fails: \<^verbatim>\<open>__init__\<close> registers the new instance only when the identity is
  not in the cache yet. With instance 0 cached under identity 7, a second
  \<^verbatim>\<open>User(_id=ObjectId(7), ...)\<close> becomes instance 1 and the cache still holds instance 0.
\<close>

theorem init_keeps_existing_cache_entry:
  "fst (Document_new ex_classes 1 [(''_id'', VOid 7), (''name'', VStr ''bob'')] user7_loaded) = Inr 1 \<and>
   map_of (caches user7_loaded 1) (VOid 7) = Some 0 \<and>
   map_of (caches (snd (Document_new ex_classes 1 [(''_id'', VOid 7), (''name'', VStr ''bob'')]
      user7_loaded)) 1) (VOid 7) = Some 0"
  by code_simp

text \<open>
  C4 as amended: when an identity argument is supplied (one that is hashable and that the
  collaborator will not assign again) and it is not in the cache of the class yet, the new
  instance is registered under it; when it is in the cache already, the entry is left as it
  is. The new instance is the one at the next free address.
\<close>

theorem init_registers_identity_not_yet_cached:
  assumes "Document_new ct c kwargs st = (r, st')"
    and "map_of kwargs ''_id'' = Some i"
    and "hashable i"
    and "old_identity st i"
  shows "(map_of (caches st c) i = None \<longrightarrow> map_of (caches st' c) i = Some (ninsts st)) \<and>
         (\<forall>b. map_of (caches st c) i = Some b \<longrightarrow> map_of (caches st' c) i = Some b) \<and>
         (\<forall>a. r = Inr a \<longrightarrow> a = ninsts st)"
  using assms by (rule Document_new_cache_entry)

theorem init_registers_identity_not_yet_cached_witness:
  "map_of (caches storage_used 1) (VOid 7) = None \<and>
   map_of (caches (snd (Document_new ex_classes 1 [(''_id'', VOid 7), (''name'', VStr ''alice'')]
      storage_used)) 1) (VOid 7) = Some 0 \<and>
   map_of (caches (snd (Document_new ex_classes 1 [(''_id'', VOid 7), (''name'', VStr ''bob'')]
      user7_loaded)) 1) (VOid 7) = Some 0"
proof -
  have h: "map_of [(''_id'', VOid 7), (''name'', VStr ''alice'')] ''_id'' = Some (VOid 7)"
    "map_of [(''_id'', VOid 7), (''name'', VStr ''bob'')] ''_id'' = Some (VOid 7)"
    "hashable (VOid 7)" "old_identity storage_used (VOid 7)" "old_identity user7_loaded (VOid 7)"
    "map_of (caches storage_used 1) (VOid 7) = None" "ninsts storage_used = 0"
    "map_of (caches user7_loaded 1) (VOid 7) = Some 0"
    by code_simp+
  have p: "Document_new ct c kw s = (fst (Document_new ct c kw s), snd (Document_new ct c kw s))"
    for ct c kw s by simp
  from init_registers_identity_not_yet_cached[OF p h(1) h(3) h(4)] h(6) h(7)
  have 1: "map_of (caches (snd (Document_new ex_classes 1
      [(''_id'', VOid 7), (''name'', VStr ''alice'')] storage_used)) 1) (VOid 7) = Some 0"
    by simp
  from init_registers_identity_not_yet_cached[OF p h(2) h(3) h(5)] h(8)
  have 2: "map_of (caches (snd (Document_new ex_classes 1
      [(''_id'', VOid 7), (''name'', VStr ''bob'')] user7_loaded)) 1) (VOid 7) = Some 0"
    by simp
  from 1 2 h(6) show ?thesis by simp
qed

section \<open>Loading documents\<close>













section \<open>Polymorphic dereference\<close>









section \<open>Defaults\<close>


























end
